theory Spec2Isabelle
  imports Main "HOL-Library.Word" "HOL-Library.AList"
begin

section \<open>Dead man's switch: the trigger service and its sweep\<close>

text \<open>
  The development embeds the two Go sources of package \<open>deadmod\<close>:
  the service file (HTTP router, trigger lifecycle on the datastore, cron sweep) and
  \<open>handler.go\<close> (a router over stub lifecycle functions). Go's \<open>int\<close> is the 64-bit
  machine integer (the conversion \<open>int(time.Hour)\<close> of the constant 3600000000000 only
  compiles where \<open>int\<close> has 64 bits), so it is a \<open>64 word\<close> and its product wraps.
\<close>

subsection \<open>Time\<close>

text \<open>
  A \<open>time.Time\<close> is an instant, counted here in nanoseconds. A \<open>time.Duration\<close> is a
  signed 64-bit count of nanoseconds. \<open>Add\<close> is plain addition of the signed duration
  and \<open>Truncate\<close> rounds down to a multiple of a positive duration.
\<close>

type_synonym time = int

definition Second :: int where
  "Second = 1000000000"

definition Hour :: "64 word" where
  "Hour = 3600000000000"

definition Truncate :: "time \<Rightarrow> int \<Rightarrow> time" where
  "Truncate t d = (if d \<le> 0 then t else t - t mod d)"

definition Add :: "time \<Rightarrow> 64 word \<Rightarrow> time" where
  "Add t d = t + sint d"

subsection \<open>Data model\<close>

record DeadMansTrigger =
  Id_f :: string
  DueToFire :: time
  HoursBetweenFire :: "64 word"
  Checkins :: "time list"
  FireURL :: string
  FirePayload :: string

text \<open>The anonymous input struct of \<open>createTrigger\<close>.\<close>

record create_input =
  in_HoursBetweenFire :: "64 word"
  in_FireURL :: string
  in_FirePayload :: string

text \<open>
  What a datastore call can fail with: the sentinel \<open>datastore.ErrNoSuchEntity\<close> or
  any other failure (network, unavailability), carrying its message.
\<close>

datatype store_error = ErrNoSuchEntity | Failure string

text \<open>
  Values of Go's \<open>error\<close> interface that the service handles: its own
  \<open>StatusCodeError\<close>, the errors of the datastore and the sentinel \<open>iterator.Done\<close>.
\<close>

datatype go_error =
    StatusCodeError int string
  | StoreError store_error
  | Done

fun Error :: "go_error \<Rightarrow> string" where
  "Error (StatusCodeError code msg) = msg"
| "Error (StoreError ErrNoSuchEntity) = ''datastore: no such entity''"
| "Error (StoreError (Failure msg)) = msg"
| "Error Done = ''no more items in iterator''"

definition notFound :: go_error where
  "notFound = StatusCodeError 404 ''The requested URL could not be found''"

datatype http_outcome =
    BadRequest string
  | TransportError string
  | Response int

datatype log_entry =
    Firing string string
  | Invoked string int
  | Failed string string

text \<open>
  The world outside the process: the datastore's entities of kind \<open>DMT\<close> keyed by
  name, the outcomes of the datastore calls still to come (\<open>None\<close>, also when the list
  is used up: the call goes through; \<open>Some e\<close>: it fails with \<open>e\<close>), the keys handed
  to \<open>store.Delete\<close> so far, the requests handed to the HTTP client so far (URL and
  body) and the log lines of the sweep.
\<close>

record world =
  entities :: "(string \<times> DeadMansTrigger) list"
  faults :: "store_error option list"
  delete_calls :: "string list"
  posts :: "(string \<times> string) list"
  logs :: "log_entry list"

subsection \<open>The datastore client\<close>

definition next_fault :: "world \<Rightarrow> store_error option \<times> world" where
  "next_fault w =
     (case faults w of
        [] \<Rightarrow> (None, w)
      | f # fs \<Rightarrow> (f, w\<lparr>faults := fs\<rparr>))"

definition store_Get :: "string \<Rightarrow> world \<Rightarrow> (go_error + DeadMansTrigger) \<times> world" where
  "store_Get key w =
     (case next_fault w of
        (Some e, w') \<Rightarrow> (Inl (StoreError e), w')
      | (None, w') \<Rightarrow>
          (case map_of (entities w') key of
             None \<Rightarrow> (Inl (StoreError ErrNoSuchEntity), w')
           | Some ent \<Rightarrow> (Inr ent, w')))"

definition store_Put :: "string \<Rightarrow> DeadMansTrigger \<Rightarrow> world \<Rightarrow> go_error option \<times> world" where
  "store_Put key ent w =
     (case next_fault w of
        (Some e, w') \<Rightarrow> (Some (StoreError e), w')
      | (None, w') \<Rightarrow> (None, w'\<lparr>entities := AList.update key ent (entities w')\<rparr>))"

text \<open>Deleting a key that holds no entity is not an error of the datastore.\<close>

definition store_Delete :: "string \<Rightarrow> world \<Rightarrow> go_error option \<times> world" where
  "store_Delete key w =
     (case next_fault (w\<lparr>delete_calls := delete_calls w @ [key]\<rparr>) of
        (Some e, w') \<Rightarrow> (Some (StoreError e), w')
      | (None, w') \<Rightarrow> (None, w'\<lparr>entities := AList.delete key (entities w')\<rparr>))"

text \<open>
  \<open>store.Run\<close> with the filter \<open>DueToFire <= now\<close>: the iterator holds the matching
  entities with their keys; \<open>Next\<close> yields them one by one and then \<open>iterator.Done\<close>.
\<close>

type_synonym iterator = "(string \<times> DeadMansTrigger) list"

definition store_Run :: "time \<Rightarrow> world \<Rightarrow> iterator" where
  "store_Run now w = filter (\<lambda>(k, ent). DueToFire ent \<le> now) (entities w)"

definition it_Next ::
  "iterator \<Rightarrow> world \<Rightarrow> (go_error + string \<times> DeadMansTrigger) \<times> iterator \<times> world" where
  "it_Next it w =
     (case next_fault w of
        (Some e, w') \<Rightarrow> (Inl (StoreError e), it, w')
      | (None, w') \<Rightarrow>
          (case it of
             [] \<Rightarrow> (Inl Done, [], w')
           | x # xs \<Rightarrow> (Inr x, xs, w')))"

subsection \<open>HTTP layer\<close>

text \<open>
  What a handler leaves in the \<open>http.ResponseWriter\<close>: the status (200 when the body
  is written without a call of \<open>WriteHeader\<close>), the headers that the handler adds
  itself, and the body, where \<open>Json\<close> stands for the JSON encoding of a trigger. The
  lifecycle functions write to the response only when they succeed, so they return either
  an error or the response. The log lines of the HTTP layer are left out.
\<close>

datatype body = NoBody | Text string | Json DeadMansTrigger

record response =
  status :: int
  headers :: "(string \<times> string) list"
  content :: body

text \<open>
  What the process is configured with and the libraries it calls: \<open>uuid.FromString\<close>
  (giving the canonical text of the identifier, which is what \<open>id.String()\<close> yields),
  the JSON decoding of a request body into the input struct (\<open>Inl\<close> the decoder's error
  message) and the base URL.
\<close>

record env =
  FromString :: "string \<Rightarrow> string option"
  Decode :: "string \<Rightarrow> string + create_input"
  baseURL :: string

record request =
  Method :: string
  Path :: string
  Body :: string

fun Split :: "string \<Rightarrow> char \<Rightarrow> string list" where
  "Split [] sep = [[]]"
| "Split (c # cs) sep =
     (if c = sep then [] # Split cs sep
      else (case Split cs sep of
              [] \<Rightarrow> [[c]]
            | s # ss \<Rightarrow> (c # s) # ss))"

fun Itoa :: "nat \<Rightarrow> string" where
  "Itoa n =
     (if n < 10 then [''0123456789'' ! n]
      else Itoa (n div 10) @ [''0123456789'' ! (n mod 10)])"

declare Itoa.simps [simp del]

definition sendEntity :: "DeadMansTrigger \<Rightarrow> response" where
  "sendEntity entity =
     \<lparr>status = 200, headers = [(''Content-Type'', ''application/json'')],
      content = Json entity\<rparr>"

definition error_response :: "go_error \<Rightarrow> response" where
  "error_response err =
     (let code = (case err of StatusCodeError sc msg \<Rightarrow> sc | _ \<Rightarrow> 500);
          text = Error err
      in \<lparr>status = code,
          headers = [(''Content-Type'', ''text/plain;charset=UTF-8''),
                     (''Content-Length'', Itoa (length text))],
          content = Text text\<rparr>)"

subsection \<open>Service logic\<close>

definition checkinTrigger ::
  "time \<Rightarrow> string \<Rightarrow> world \<Rightarrow> (go_error + response) \<times> world" where
  "checkinTrigger now uid w =
     (case store_Get uid w of
        (Inr entity, w1) \<Rightarrow>
          (let now' = Truncate now Second;
               entity' = entity\<lparr>Checkins := Checkins entity @ [now'],
                                DueToFire := Add now' (HoursBetweenFire entity * Hour)\<rparr>
           in case store_Put uid entity' w1 of
                (None, w2) \<Rightarrow> (Inr (sendEntity entity'), w2)
              | (Some err, w2) \<Rightarrow> (Inl err, w2))
      | (Inl err, w1) \<Rightarrow>
          (if err = StoreError ErrNoSuchEntity then (Inl notFound, w1) else (Inl err, w1)))"

definition deleteTrigger :: "string \<Rightarrow> world \<Rightarrow> (go_error + response) \<times> world" where
  "deleteTrigger uid w =
     (case store_Delete uid w of
        (None, w1) \<Rightarrow> (Inr \<lparr>status = 204, headers = [], content = NoBody\<rparr>, w1)
      | (Some err, w1) \<Rightarrow> (Inl err, w1))"

definition getTrigger :: "string \<Rightarrow> world \<Rightarrow> (go_error + response) \<times> world" where
  "getTrigger uid w =
     (case store_Get uid w of
        (Inr entity, w1) \<Rightarrow> (Inr (sendEntity entity), w1)
      | (Inl err, w1) \<Rightarrow>
          (if err = StoreError ErrNoSuchEntity then (Inl notFound, w1) else (Inl err, w1)))"

definition createTrigger ::
  "env \<Rightarrow> time \<Rightarrow> string \<Rightarrow> string \<Rightarrow> world \<Rightarrow> (go_error + response) \<times> world" where
  "createTrigger ev now newid rqbody w =
     (case Decode ev rqbody of
        Inr input \<Rightarrow>
          (let now' = Truncate now Second;
               fullEntity =
                 \<lparr>Id_f = newid,
                  DueToFire = Add now' (in_HoursBetweenFire input * Hour),
                  HoursBetweenFire = in_HoursBetweenFire input,
                  Checkins = [now'],
                  FireURL = in_FireURL input,
                  FirePayload = in_FirePayload input\<rparr>
           in case store_Put (Id_f fullEntity) fullEntity w of
                (None, w1) \<Rightarrow>
                  (let path = baseURL ev @ ''/triggers/'' @ Id_f fullEntity
                   in (Inr \<lparr>status = 307, headers = [(''Location'', path)],
                            content = NoBody\<rparr>, w1))
              | (Some err, w1) \<Rightarrow> (Inl err, w1))
      | Inl msg \<Rightarrow> (Inl (StatusCodeError 422 msg), w))"

definition HandleHTTP :: "env \<Rightarrow> time \<Rightarrow> string \<Rightarrow> request \<Rightarrow> world \<Rightarrow> response \<times> world" where
  "HandleHTTP ev now newid rq w =
     (let segments = Split (Path rq) CHR ''/'';
          n = length segments;
          (err, w') =
            (if 2 \<le> n \<and> segments ! 1 = ''triggers'' then
               (if n = 2 then
                  (if Method rq = ''POST'' then createTrigger ev now newid (Body rq) w
                   else (Inl (StatusCodeError 405
                     ''The requested method is not available. Available methods: POST''), w))
                else if n = 3 then
                  (case FromString ev (segments ! 2) of
                     Some uid \<Rightarrow>
                       (if Method rq = ''GET'' then getTrigger uid w
                        else if Method rq = ''DELETE'' then deleteTrigger uid w
                        else (Inl (StatusCodeError 405
                          ''The requested method is not available. Available methods: GET, DELETE''), w))
                   | None \<Rightarrow> (Inl notFound, w))
                else if n = 4 then
                  (case FromString ev (segments ! 2) of
                     Some uid \<Rightarrow>
                       (if segments ! 3 = ''checkin'' then
                          (if Method rq = ''POST'' then checkinTrigger now uid w
                           else (Inl (StatusCodeError 405
                             ''The requested method is not available. Available methods: POST''), w))
                        else (Inl notFound, w))
                   | None \<Rightarrow> (Inl notFound, w))
                else (Inl notFound, w))
             else (Inl notFound, w))
      in case err of
           Inl e \<Rightarrow> (error_response e, w')
         | Inr r \<Rightarrow> (r, w'))"

subsection \<open>Cron job logic\<close>

text \<open>
  \<open>fireHttpCallback\<close> runs as a goroutine per trigger; it shares nothing with the loop
  but the wait group and the log, and \<open>wg.Wait()\<close> lets the sweep return only after
  all of them are done. The model runs each one where it is launched, so the order of
  the log lines and of the requests is one of those the goroutines can produce; the
  datastore is not touched by them. What the HTTP
  client meets is the parameter \<open>net\<close>: the request cannot be built, the transport
  fails (which includes a timeout of the context), or a response with a status code
  comes back.
\<close>

definition fireHttpCallback ::
  "(string \<Rightarrow> string \<Rightarrow> http_outcome) \<Rightarrow> string \<Rightarrow> string \<Rightarrow> world \<Rightarrow> world" where
  "fireHttpCallback net requestUrl payload w =
     (case net requestUrl payload of
        BadRequest msg \<Rightarrow> w\<lparr>logs := logs w @ [Failed requestUrl msg]\<rparr>
      | TransportError msg \<Rightarrow>
          w\<lparr>posts := posts w @ [(requestUrl, payload)],
            logs := logs w @ [Failed requestUrl msg]\<rparr>
      | Response code \<Rightarrow>
          w\<lparr>posts := posts w @ [(requestUrl, payload)],
            logs := logs w @ [Invoked requestUrl code]\<rparr>)"

text \<open>
  The body of the \<open>for\<close> loop followed by its post statement. The key \<open>k\<close> is
  assigned by the init statement only; the post statement discards the key that
  \<open>Next\<close> returns and overwrites \<open>err\<close>, which the body has set from \<open>store.Delete\<close>.
\<close>

function cron_loop ::
  "(string \<Rightarrow> string \<Rightarrow> http_outcome) \<Rightarrow> string \<Rightarrow> DeadMansTrigger \<Rightarrow> iterator \<Rightarrow> world
     \<Rightarrow> go_error \<times> world" where
  "cron_loop net k target it w =
     (let w1 = w\<lparr>logs := logs w @ [Firing (Id_f target) (FireURL target)]\<rparr>;
          w2 = fireHttpCallback net (FireURL target) (FirePayload target) w1;
          (err, w3) = store_Delete k w2
      in case it_Next it w3 of
           (Inl err', it', w4) \<Rightarrow> (err', w4)
         | (Inr (k', target'), it', w4) \<Rightarrow> cron_loop net k target' it' w4)"
  by pat_completeness auto
termination
  by (relation "measure (\<lambda>(net, k, target, it, w). length it)")
     (auto simp: it_Next_def split: prod.splits option.splits list.splits)

declare cron_loop.simps [simp del]

definition ServeCron ::
  "(string \<Rightarrow> string \<Rightarrow> http_outcome) \<Rightarrow> time \<Rightarrow> world \<Rightarrow> go_error option \<times> world" where
  "ServeCron net now w =
     (let it = store_Run now w;
          (err, w') =
            (case it_Next it w of
               (Inl e, it', w1) \<Rightarrow> (e, w1)
             | (Inr (k, target), it', w1) \<Rightarrow> cron_loop net k target it' w1)
      in (if err = Done then None else Some err, w'))"

subsection \<open>The router of \<open>handler.go\<close>\<close>

text \<open>
  \<open>handler.go\<close> declares its own error types, told apart by the interface
  \<open>StatusCoder\<close>, its own \<open>HandleHTTP\<close> and four lifecycle functions that write
  their name to the response and return \<open>nil\<close>. Its names carry the prefix
  \<open>handler_\<close> here where they would clash with the service file's.
\<close>

datatype handler_error = NotFound | MethodNotAllowed "string list"

fun handler_StatusCode :: "handler_error \<Rightarrow> int" where
  "handler_StatusCode NotFound = 404"
| "handler_StatusCode (MethodNotAllowed m) = 405"

text \<open>
  \<open>MethodNotAllowed.Error\<close> returns \<open>fmt.Sprintf("Method not allowed. Supported
  methods: %v", m)\<close>. The operand \<open>m\<close> has the type \<open>MethodNotAllowed\<close>, which
  implements \<open>error\<close>, and \<open>fmt\<close> formats such an operand under \<open>%v\<close> by calling
  its \<open>Error\<close> method: the method calls itself before it has produced any text.
  \<open>None\<close> stands for a call that does not return.
\<close>

partial_function (option) MethodNotAllowed_Error :: "string list \<Rightarrow> string option" where
  "MethodNotAllowed_Error m =
     Option.bind (MethodNotAllowed_Error m)
       (\<lambda>s. Some (''Method not allowed. Supported methods: '' @ s))"

definition handler_Error :: "handler_error \<Rightarrow> string option" where
  "handler_Error err =
     (case err of
        NotFound \<Rightarrow> Some ''The requested resource could not be found''
      | MethodNotAllowed m \<Rightarrow> MethodNotAllowed_Error m)"

definition handler_checkinTrigger :: "string \<Rightarrow> handler_error + response" where
  "handler_checkinTrigger uuids =
     Inr \<lparr>status = 200, headers = [], content = Text ''CheckinTrigger''\<rparr>"

definition handler_deleteTrigger :: "string \<Rightarrow> handler_error + response" where
  "handler_deleteTrigger uuids =
     Inr \<lparr>status = 200, headers = [], content = Text ''DeleteTrigger''\<rparr>"

definition handler_getTrigger :: "string \<Rightarrow> handler_error + response" where
  "handler_getTrigger uuids =
     Inr \<lparr>status = 200, headers = [], content = Text ''GetTrigger''\<rparr>"

definition handler_createTrigger :: "string \<Rightarrow> handler_error + response" where
  "handler_createTrigger rqbody =
     Inr \<lparr>status = 200, headers = [], content = Text ''CreateTrigger''\<rparr>"

text \<open>The zero value that \<open>uuid.FromString\<close> leaves in \<open>id\<close> when it fails.\<close>

definition uuid_Nil :: string where
  "uuid_Nil = ''00000000-0000-0000-0000-000000000000''"

definition handler_HandleHTTP :: "(string \<Rightarrow> string option) \<Rightarrow> request \<Rightarrow> response option" where
  "handler_HandleHTTP fromString rq =
     (let segments = Split (Path rq) CHR ''/'';
          n = length segments;
          err =
            (if 1 \<le> n \<and> segments ! 0 = ''triggers'' then
               (if n = 1 then
                  (if Method rq = ''POST'' then handler_createTrigger (Body rq)
                   else Inl (MethodNotAllowed [''POST'']))
                else if n = 2 then
                  (case fromString (segments ! 1) of
                     None \<Rightarrow>
                       (if Method rq = ''GET'' then handler_getTrigger uuid_Nil
                        else if Method rq = ''DELETE'' then handler_deleteTrigger uuid_Nil
                        else Inl (MethodNotAllowed [''GET'', ''DELETE'']))
                   | Some uid \<Rightarrow> Inl NotFound)
                else if n = 3 then
                  (case fromString (segments ! 1) of
                     Some uid \<Rightarrow>
                       (if segments ! 2 = ''checkin'' then
                          (if Method rq = ''POST'' then handler_checkinTrigger uid
                           else Inl (MethodNotAllowed [''POST'']))
                        else Inl NotFound)
                   | None \<Rightarrow> Inl NotFound)
                else Inl NotFound)
             else Inl NotFound)
      in case err of
           Inr r \<Rightarrow> Some r
         | Inl e \<Rightarrow>
             (case handler_Error e of
                None \<Rightarrow> None
              | Some text \<Rightarrow>
                  Some \<lparr>status = handler_StatusCode e,
                        headers = [(''Content-Type'', ''text/plain;charset=UTF-8''),
                                   (''Content-Length'', Itoa (length text))],
                        content = Text text\<rparr>))"

subsection \<open>Properties of a trigger and sample data\<close>

text \<open>The invariant of the data model: the trigger is due one interval after its last check-in.\<close>

definition due_consistent :: "DeadMansTrigger \<Rightarrow> bool" where
  "due_consistent e \<longleftrightarrow>
     Checkins e \<noteq> [] \<and>
     DueToFire e = last (Checkins e) + sint (HoursBetweenFire e) * 3600000000000"

text \<open>The intervals whose length in nanoseconds fits a \<open>time.Duration\<close>.\<close>

definition in_range :: "64 word \<Rightarrow> bool" where
  "in_range h \<longleftrightarrow> - 2562047 \<le> sint h \<and> sint h \<le> 2562047"

text \<open>A client that checks in at each of the given times and stops at the first failure.\<close>

fun checkin_all :: "time list \<Rightarrow> string \<Rightarrow> world \<Rightarrow> world option" where
  "checkin_all [] uid w = Some w"
| "checkin_all (t # ts) uid w =
     (case checkinTrigger t uid w of
        (Inr r, w') \<Rightarrow> checkin_all ts uid w'
      | (Inl e, w') \<Rightarrow> None)"

text \<open>What the sweep leaves a caller to observe, the log and the callbacks apart.\<close>

definition store_view :: "world \<Rightarrow> (string \<times> DeadMansTrigger) list \<times> store_error option list \<times> string list" where
  "store_view w = (entities w, faults w, delete_calls w)"

text \<open>The two log lines of one trigger's callback: the launch and what came of it.\<close>

definition callback_lines :: "(string \<Rightarrow> string \<Rightarrow> http_outcome) \<Rightarrow> DeadMansTrigger \<Rightarrow> log_entry list" where
  "callback_lines net t =
     [Firing (Id_f t) (FireURL t),
      (case net (FireURL t) (FirePayload t) of
         BadRequest msg \<Rightarrow> Failed (FireURL t) msg
       | TransportError msg \<Rightarrow> Failed (FireURL t) msg
       | Response code \<Rightarrow> Invoked (FireURL t) code)]"

text \<open>The request that one trigger's callback hands to the HTTP client, if it can build one.\<close>

definition callback_posts :: "(string \<Rightarrow> string \<Rightarrow> http_outcome) \<Rightarrow> DeadMansTrigger \<Rightarrow> (string \<times> string) list" where
  "callback_posts net t =
     (case net (FireURL t) (FirePayload t) of
        BadRequest msg \<Rightarrow> []
      | TransportError msg \<Rightarrow> [(FireURL t, FirePayload t)]
      | Response code \<Rightarrow> [(FireURL t, FirePayload t)])"

text \<open>
  Sample values for the parameters: a parser that accepts the canonical lower-case text
  of a UUID (hexadecimal digits in groups of 8, 4, 4, 4 and 12), decoders with a fixed
  outcome, an empty datastore, and networks where every callback meets the same fate.
\<close>

definition is_hex :: "char \<Rightarrow> bool" where
  "is_hex c \<longleftrightarrow> c \<in> set ''0123456789abcdef''"

definition sample_FromString :: "string \<Rightarrow> string option" where
  "sample_FromString s =
     (if map (\<lambda>c. if is_hex c then CHR ''0'' else c) s = ''00000000-0000-0000-0000-000000000000''
      then Some s else None)"

definition decodes_to :: "create_input \<Rightarrow> string \<Rightarrow> string + create_input" where
  "decodes_to i b = Inr i"

definition decode_fails :: "string \<Rightarrow> string \<Rightarrow> string + create_input" where
  "decode_fails msg b = Inl msg"

definition sample_env :: "(string \<Rightarrow> string + create_input) \<Rightarrow> env" where
  "sample_env d =
     \<lparr>FromString = sample_FromString, Decode = d,
      baseURL = ''https://europe-west1-proj.cloudfunctions.net/dms''\<rparr>"

definition sample_input :: "64 word \<Rightarrow> string \<Rightarrow> create_input" where
  "sample_input h url =
     \<lparr>in_HoursBetweenFire = h, in_FireURL = url, in_FirePayload = ''missed''\<rparr>"

definition sample_trigger :: "string \<Rightarrow> time \<Rightarrow> string \<Rightarrow> DeadMansTrigger" where
  "sample_trigger uid due url =
     \<lparr>Id_f = uid, DueToFire = due, HoursBetweenFire = 1,
      Checkins = [due - 3600000000000], FireURL = url, FirePayload = ''missed''\<rparr>"

definition datastore :: "(string \<times> DeadMansTrigger) list \<Rightarrow> store_error option list \<Rightarrow> world" where
  "datastore ents fs =
     \<lparr>entities = ents, faults = fs, delete_calls = [], posts = [], logs = []\<rparr>"

definition always :: "http_outcome \<Rightarrow> string \<Rightarrow> string \<Rightarrow> http_outcome" where
  "always outcome requestUrl payload = outcome"

definition id_one :: string where
  "id_one = ''6ba7b810-9dad-11d1-80b4-00c04fd430c8''"

definition id_two :: string where
  "id_two = ''7d444840-9dc0-11d1-b245-5ffdce74fad2''"

definition id_three :: string where
  "id_three = ''886313e1-3b8a-5372-9b90-0c9aee199e5d''"

definition trigger_of :: "string \<Rightarrow> time \<Rightarrow> 64 word \<Rightarrow> time list \<Rightarrow> string \<Rightarrow> DeadMansTrigger" where
  "trigger_of uid due h cs url =
     \<lparr>Id_f = uid, DueToFire = due, HoursBetweenFire = h, Checkins = cs,
      FireURL = url, FirePayload = ''missed''\<rparr>"

lemmas sample_defs =
  sample_env_def decodes_to_def decode_fails_def sample_input_def sample_trigger_def
  datastore_def always_def id_one_def id_two_def trigger_of_def

lemmas sweep_defs =
  store_Run_def AList.delete_eq callback_posts_def callback_lines_def
  sample_trigger_def datastore_def always_def id_one_def id_two_def id_three_def

lemmas service_defs =
  createTrigger_def checkinTrigger_def getTrigger_def deleteTrigger_def sendEntity_def
  store_Get_def store_Put_def store_Delete_def next_fault_def
  Truncate_def Second_def Add_def Hour_def notFound_def

section \<open>Trigger lifecycle\<close>

lemma hours_no_overflow:
  assumes "in_range h"
  shows "sint (h * Hour) = sint h * 3600000000000"
proof -
  have H: "sint Hour = 3600000000000" by (simp add: Hour_def)
  have "sint (h * Hour) = signed_take_bit 63 (sint h * sint Hour)"
    by (simp add: sint_word_ariths word_size)
  also have "\<dots> = sint h * 3600000000000"
    unfolding H using assms by (intro signed_take_bit_int_eq_self) (auto simp: in_range_def)
  finally show ?thesis .
qed

lemma due_after_add:
  assumes "in_range h"
  shows "Add t (h * Hour) = t + sint h * 3600000000000"
  using assms by (simp add: Add_def hours_no_overflow)

lemma createTrigger_stored:
  assumes "createTrigger ev now newid b w = (Inr r, w')"
  shows "\<exists>input. Decode ev b = Inr input \<and>
     map_of (entities w') newid =
       Some \<lparr>Id_f = newid,
             DueToFire = Add (Truncate now Second) (in_HoursBetweenFire input * Hour),
             HoursBetweenFire = in_HoursBetweenFire input,
             Checkins = [Truncate now Second],
             FireURL = in_FireURL input,
             FirePayload = in_FirePayload input\<rparr>"
  using assms
  by (auto simp: createTrigger_def store_Put_def next_fault_def Let_def update_conv
           split: sum.splits prod.splits option.splits list.splits)

lemma checkinTrigger_stored:
  assumes "checkinTrigger now uid w = (Inr r, w')"
  shows "\<exists>e. map_of (entities w) uid = Some e \<and>
     map_of (entities w') uid =
       Some (e\<lparr>Checkins := Checkins e @ [Truncate now Second],
               DueToFire := Add (Truncate now Second) (HoursBetweenFire e * Hour)\<rparr>)"
  using assms
  by (auto simp: checkinTrigger_def store_Get_def store_Put_def next_fault_def Let_def update_conv
           split: sum.splits prod.splits option.splits list.splits if_splits)

lemma checkinTrigger_others:
  assumes "checkinTrigger now uid w = (Inr r, w')" "k \<noteq> uid"
  shows "map_of (entities w') k = map_of (entities w) k"
  using assms
  by (auto simp: checkinTrigger_def store_Get_def store_Put_def next_fault_def Let_def update_conv
           split: sum.splits prod.splits option.splits list.splits if_splits)

lemma checkin_all_stored:
  assumes "checkin_all ts uid w = Some w2" "map_of (entities w) uid = Some e"
  shows "\<exists>e2. map_of (entities w2) uid = Some e2 \<and>
           HoursBetweenFire e2 = HoursBetweenFire e \<and>
           (ts = [] \<longrightarrow> e2 = e) \<and>
           (ts \<noteq> [] \<longrightarrow> DueToFire e2 = Add (Truncate (last ts) Second) (HoursBetweenFire e * Hour))"
  using assms
proof (induction ts arbitrary: w e)
  case Nil
  then show ?case by simp
next
  case (Cons t ts)
  from Cons.prems(1) obtain r w1 where
    step: "checkinTrigger t uid w = (Inr r, w1)" and rest: "checkin_all ts uid w1 = Some w2"
    by (auto split: prod.splits sum.splits)
  from checkinTrigger_stored [OF step] Cons.prems(2)
  have st: "map_of (entities w1) uid =
      Some (e\<lparr>Checkins := Checkins e @ [Truncate t Second],
              DueToFire := Add (Truncate t Second) (HoursBetweenFire e * Hour)\<rparr>)"
    by auto
  from Cons.IH [OF rest st] show ?case
    by (cases "ts = []") auto
qed

text \<open>
  C1, as stated, fails: an interval of 2562048 hours is more nanoseconds than a 64-bit
  \<open>int\<close> holds, the product \<open>HoursBetweenFire * int(time.Hour)\<close> wraps around to a
  negative duration, and the trigger that a successful creation stores is due some 292
  years before its only check-in instead of 2562048 hours after it.
\<close>

theorem due_time_overflow_counterexample:
  "createTrigger (sample_env (decodes_to (sample_input 2562048 ''https://example.org/alarm'')))
       1700000000500000000 ''6ba7b810-9dad-11d1-80b4-00c04fd430c8'' [] (datastore [] [])
     = (Inr \<lparr>status = 307,
             headers = [(''Location'',
               ''https://europe-west1-proj.cloudfunctions.net/dms/triggers/6ba7b810-9dad-11d1-80b4-00c04fd430c8'')],
             content = NoBody\<rparr>,
        datastore
          [(''6ba7b810-9dad-11d1-80b4-00c04fd430c8'',
            \<lparr>Id_f = ''6ba7b810-9dad-11d1-80b4-00c04fd430c8'',
             DueToFire = - 7523371273709551616, HoursBetweenFire = 2562048,
             Checkins = [1700000000000000000],
             FireURL = ''https://example.org/alarm'', FirePayload = ''missed''\<rparr>)] [])
   \<and> - 7523371273709551616 \<noteq> (1700000000000000000 :: int) + 2562048 * 3600000000000"
  by (simp add: createTrigger_def sample_env_def decodes_to_def sample_input_def datastore_def
        store_Put_def next_fault_def Truncate_def Second_def Add_def Hour_def)

text \<open>
  C1, amended: after a successful creation the stored record has the creation time,
  truncated to whole seconds, as its last check-in, and after a successful check-in the
  check-in time; in both cases \<open>DueToFire = last Checkins + HoursBetweenFire\<close> hours holds
  whenever the interval is between -2562047 and 2562047 hours, the intervals whose
  length in nanoseconds fits 64 bits. In particular, after a creation at \<open>now\<close> and
  successful check-ins at the times \<open>ts\<close>, the trigger is due that interval after the
  last of these times, truncated to the second.
\<close>

theorem due_time_after_mutation:
  "(createTrigger ev now newid b w = (Inr r1, w1) \<longrightarrow>
      (\<exists>e. map_of (entities w1) newid = Some e \<and>
           last (Checkins e) = Truncate now Second \<and>
           (in_range (HoursBetweenFire e) \<longrightarrow> due_consistent e))) \<and>
   (checkinTrigger now uid w = (Inr r2, w2) \<longrightarrow>
      (\<exists>e. map_of (entities w2) uid = Some e \<and>
           last (Checkins e) = Truncate now Second \<and>
           (in_range (HoursBetweenFire e) \<longrightarrow> due_consistent e))) \<and>
   (createTrigger ev now newid b w = (Inr r3, w3) \<and> checkin_all ts newid w3 = Some w4 \<longrightarrow>
      (\<exists>e. map_of (entities w4) newid = Some e \<and>
           (in_range (HoursBetweenFire e) \<longrightarrow>
              DueToFire e =
                Truncate (last (now # ts)) Second + sint (HoursBetweenFire e) * 3600000000000)))"
proof (intro conjI impI)
  assume "createTrigger ev now newid b w = (Inr r1, w1)"
  from createTrigger_stored [OF this] show
    "\<exists>e. map_of (entities w1) newid = Some e \<and> last (Checkins e) = Truncate now Second \<and>
         (in_range (HoursBetweenFire e) \<longrightarrow> due_consistent e)"
    by (auto simp: due_consistent_def due_after_add)
next
  assume "checkinTrigger now uid w = (Inr r2, w2)"
  from checkinTrigger_stored [OF this] show
    "\<exists>e. map_of (entities w2) uid = Some e \<and> last (Checkins e) = Truncate now Second \<and>
         (in_range (HoursBetweenFire e) \<longrightarrow> due_consistent e)"
    by (auto simp: due_consistent_def due_after_add)
next
  assume a: "createTrigger ev now newid b w = (Inr r3, w3) \<and> checkin_all ts newid w3 = Some w4"
  from createTrigger_stored [of ev now newid b w r3 w3] a obtain e0 where
    e0: "map_of (entities w3) newid = Some e0"
        "DueToFire e0 = Add (Truncate now Second) (HoursBetweenFire e0 * Hour)"
    by auto
  from checkin_all_stored [of ts newid w3 w4 e0] a e0 show
    "\<exists>e. map_of (entities w4) newid = Some e \<and>
         (in_range (HoursBetweenFire e) \<longrightarrow>
            DueToFire e =
              Truncate (last (now # ts)) Second + sint (HoursBetweenFire e) * 3600000000000)"
    by (cases "ts = []") (auto simp: due_after_add)
qed

text \<open>
  The amended C1 at a creation with an interval of 24 hours, a check-in on another
  trigger with an interval of one hour, and two check-ins after the creation.
\<close>

theorem due_time_after_mutation_witness:
  "createTrigger (sample_env (decodes_to (sample_input 24 ''https://example.org/alarm'')))
       1700000000500000000 id_one []
       (datastore [(id_two, trigger_of id_two 1700000100000000000 1 [1699996500000000000] ''https://example.org/other'')] [])
     = (Inr \<lparr>status = 307,
             headers = [(''Location'',
               ''https://europe-west1-proj.cloudfunctions.net/dms/triggers/6ba7b810-9dad-11d1-80b4-00c04fd430c8'')],
             content = NoBody\<rparr>,
        datastore
          [(id_two, trigger_of id_two 1700000100000000000 1 [1699996500000000000] ''https://example.org/other''),
           (id_one, trigger_of id_one 1700086400000000000 24 [1700000000000000000] ''https://example.org/alarm'')] [])
   \<and> checkinTrigger 1700000000500000000 id_two
       (datastore [(id_two, trigger_of id_two 1700000100000000000 1 [1699996500000000000] ''https://example.org/other'')] [])
     = (Inr (sendEntity (trigger_of id_two 1700003600000000000 1 [1699996500000000000, 1700000000000000000] ''https://example.org/other'')),
        datastore [(id_two, trigger_of id_two 1700003600000000000 1 [1699996500000000000, 1700000000000000000] ''https://example.org/other'')] [])
   \<and> checkin_all [1700003600900000000, 1700007200100000000] id_one
       (datastore
          [(id_two, trigger_of id_two 1700000100000000000 1 [1699996500000000000] ''https://example.org/other''),
           (id_one, trigger_of id_one 1700086400000000000 24 [1700000000000000000] ''https://example.org/alarm'')] [])
     = Some (datastore
          [(id_two, trigger_of id_two 1700000100000000000 1 [1699996500000000000] ''https://example.org/other''),
           (id_one, trigger_of id_one 1700093600000000000 24
              [1700000000000000000, 1700003600000000000, 1700007200000000000] ''https://example.org/alarm'')] [])
   \<and> in_range 24 \<and> in_range 1
   \<and> due_consistent (trigger_of id_one 1700086400000000000 24 [1700000000000000000] ''https://example.org/alarm'')
   \<and> due_consistent (trigger_of id_two 1700003600000000000 1 [1699996500000000000, 1700000000000000000] ''https://example.org/other'')
   \<and> (1700093600000000000 :: int) = Truncate 1700007200100000000 Second + sint (24 :: 64 word) * 3600000000000"
  using due_time_after_mutation
    [of "sample_env (decodes_to (sample_input 24 ''https://example.org/alarm''))"
        1700000000500000000 id_one "[]"
        "datastore [(id_two, trigger_of id_two 1700000100000000000 1 [1699996500000000000] ''https://example.org/other'')] []"
        "\<lparr>status = 307,
             headers = [(''Location'',
               ''https://europe-west1-proj.cloudfunctions.net/dms/triggers/6ba7b810-9dad-11d1-80b4-00c04fd430c8'')],
             content = NoBody\<rparr>"
        "datastore
          [(id_two, trigger_of id_two 1700000100000000000 1 [1699996500000000000] ''https://example.org/other''),
           (id_one, trigger_of id_one 1700086400000000000 24 [1700000000000000000] ''https://example.org/alarm'')] []"
        id_two
        "sendEntity (trigger_of id_two 1700003600000000000 1 [1699996500000000000, 1700000000000000000] ''https://example.org/other'')"
        "datastore [(id_two, trigger_of id_two 1700003600000000000 1 [1699996500000000000, 1700000000000000000] ''https://example.org/other'')] []"
        "\<lparr>status = 307,
             headers = [(''Location'',
               ''https://europe-west1-proj.cloudfunctions.net/dms/triggers/6ba7b810-9dad-11d1-80b4-00c04fd430c8'')],
             content = NoBody\<rparr>"
        "datastore
          [(id_two, trigger_of id_two 1700000100000000000 1 [1699996500000000000] ''https://example.org/other''),
           (id_one, trigger_of id_one 1700086400000000000 24 [1700000000000000000] ''https://example.org/alarm'')] []"
        "[1700003600900000000, 1700007200100000000]"
        "datastore
          [(id_two, trigger_of id_two 1700000100000000000 1 [1699996500000000000] ''https://example.org/other''),
           (id_one, trigger_of id_one 1700093600000000000 24
              [1700000000000000000, 1700003600000000000, 1700007200000000000] ''https://example.org/alarm'')] []"]
  by (simp add: sample_defs service_defs in_range_def due_consistent_def Let_def)

section \<open>Check-in frame\<close>

text \<open>
  C10: a successful check-in leaves \<open>Id\<close>, \<open>HoursBetweenFire\<close>, \<open>FireURL\<close> and
  \<open>FirePayload\<close> of the stored record as they were; \<open>Checkins\<close> gains the check-in time
  at its end, and the record differs from the old one in \<open>Checkins\<close> and \<open>DueToFire\<close>
  only.
\<close>

theorem checkin_frame:
  "checkinTrigger now uid w = (Inr r, w') \<longrightarrow>
     (\<exists>e e'. map_of (entities w) uid = Some e \<and> map_of (entities w') uid = Some e' \<and>
        Id_f e' = Id_f e \<and> HoursBetweenFire e' = HoursBetweenFire e \<and>
        FireURL e' = FireURL e \<and> FirePayload e' = FirePayload e \<and>
        Checkins e' = Checkins e @ [Truncate now Second] \<and>
        e' = e\<lparr>Checkins := Checkins e', DueToFire := DueToFire e'\<rparr>)"
proof
  assume "checkinTrigger now uid w = (Inr r, w')"
  from checkinTrigger_stored [OF this] show
    "\<exists>e e'. map_of (entities w) uid = Some e \<and> map_of (entities w') uid = Some e' \<and>
        Id_f e' = Id_f e \<and> HoursBetweenFire e' = HoursBetweenFire e \<and>
        FireURL e' = FireURL e \<and> FirePayload e' = FirePayload e \<and>
        Checkins e' = Checkins e @ [Truncate now Second] \<and>
        e' = e\<lparr>Checkins := Checkins e', DueToFire := DueToFire e'\<rparr>"
    by auto
qed

text \<open>
  C10 at a check-in on a stored trigger with an interval of one hour.
\<close>

theorem checkin_frame_witness:
  "checkinTrigger 1700000000500000000 id_two
       (datastore [(id_two, trigger_of id_two 1700000100000000000 1 [1699996500000000000] ''https://example.org/other'')] [])
     = (Inr (sendEntity (trigger_of id_two 1700003600000000000 1 [1699996500000000000, 1700000000000000000] ''https://example.org/other'')),
        datastore [(id_two, trigger_of id_two 1700003600000000000 1 [1699996500000000000, 1700000000000000000] ''https://example.org/other'')] [])
   \<and> (\<exists>e e'. map_of [(id_two, trigger_of id_two 1700000100000000000 1 [1699996500000000000] ''https://example.org/other'')] id_two = Some e \<and>
         map_of [(id_two, trigger_of id_two 1700003600000000000 1 [1699996500000000000, 1700000000000000000] ''https://example.org/other'')] id_two = Some e' \<and>
         Id_f e' = Id_f e \<and> HoursBetweenFire e' = HoursBetweenFire e \<and>
         FireURL e' = FireURL e \<and> FirePayload e' = FirePayload e \<and>
         Checkins e' = Checkins e @ [1700000000000000000])"
  using checkin_frame
    [of 1700000000500000000 id_two
        "datastore [(id_two, trigger_of id_two 1700000100000000000 1 [1699996500000000000] ''https://example.org/other'')] []"
        "sendEntity (trigger_of id_two 1700003600000000000 1 [1699996500000000000, 1700000000000000000] ''https://example.org/other'')"
        "datastore [(id_two, trigger_of id_two 1700003600000000000 1 [1699996500000000000, 1700000000000000000] ''https://example.org/other'')] []"]
  by (simp add: sample_defs service_defs Let_def)

section \<open>Validation\<close>

text \<open>
  C3, as stated, fails: \<open>createTrigger\<close> looks at nothing but the decoder's error. A body
  such as \<open>{"hoursBetweenFire": 0}\<close> decodes (the absent \<open>fireURL\<close> is left at the empty
  string), the record is written to the datastore and the answer is the redirect 307.
\<close>

theorem create_unvalidated_counterexample:
  "createTrigger (sample_env (decodes_to (sample_input 0 [])))
       1700000000500000000 id_one [] (datastore [] [])
     = (Inr \<lparr>status = 307,
             headers = [(''Location'',
               ''https://europe-west1-proj.cloudfunctions.net/dms/triggers/6ba7b810-9dad-11d1-80b4-00c04fd430c8'')],
             content = NoBody\<rparr>,
        datastore [(id_one, trigger_of id_one 1700000000000000000 0 [1700000000000000000] [])] [])"
  by (simp add: sample_defs service_defs Let_def)

text \<open>
  C3, amended: \<open>createTrigger\<close> fails with status 422 and without any call of the
  datastore when the body does not decode into the input struct. A body that decodes is
  written whatever the values of its fields are, and the answer is the redirect; if that
  write fails, the answer is the datastore's error and nothing is stored.
\<close>

theorem create_validation:
  "(Decode ev1 b1 = Inl msg \<longrightarrow>
      createTrigger ev1 now1 newid1 b1 w1 = (Inl (StatusCodeError 422 msg), w1)) \<and>
   (Decode ev2 b2 = Inr input2 \<and> next_fault w2 = (None, w2') \<longrightarrow>
      createTrigger ev2 now2 newid2 b2 w2 =
        (Inr \<lparr>status = 307,
              headers = [(''Location'', baseURL ev2 @ ''/triggers/'' @ newid2)],
              content = NoBody\<rparr>,
         w2'\<lparr>entities := AList.update newid2
            \<lparr>Id_f = newid2,
             DueToFire = Add (Truncate now2 Second) (in_HoursBetweenFire input2 * Hour),
             HoursBetweenFire = in_HoursBetweenFire input2,
             Checkins = [Truncate now2 Second],
             FireURL = in_FireURL input2,
             FirePayload = in_FirePayload input2\<rparr> (entities w2')\<rparr>)) \<and>
   (Decode ev3 b3 = Inr input3 \<and> next_fault w3 = (Some e, w3') \<longrightarrow>
      createTrigger ev3 now3 newid3 b3 w3 = (Inl (StoreError e), w3'))"
  by (simp add: createTrigger_def store_Put_def Let_def)

text \<open>
  The amended C3 at a truncated body, at an interval of -5 hours without \<open>fireURL\<close>, and
  at the same input when the datastore is unavailable.
\<close>

theorem create_validation_witness:
  "Decode (sample_env (decode_fails ''unexpected end of JSON input'')) ''{'' = Inl ''unexpected end of JSON input''
   \<and> createTrigger (sample_env (decode_fails ''unexpected end of JSON input''))
        1700000000500000000 id_one ''{'' (datastore [] [])
      = (Inl (StatusCodeError 422 ''unexpected end of JSON input''), datastore [] [])
   \<and> Decode (sample_env (decodes_to (sample_input (- 5) []))) [] = Inr (sample_input (- 5) [])
   \<and> next_fault (datastore [] []) = (None, datastore [] [])
   \<and> createTrigger (sample_env (decodes_to (sample_input (- 5) [])))
        1700000000500000000 id_one [] (datastore [] [])
      = (Inr \<lparr>status = 307,
             headers = [(''Location'',
               ''https://europe-west1-proj.cloudfunctions.net/dms/triggers/6ba7b810-9dad-11d1-80b4-00c04fd430c8'')],
             content = NoBody\<rparr>,
         datastore [(id_one, trigger_of id_one 1699982000000000000 (- 5) [1700000000000000000] [])] [])
   \<and> next_fault (datastore [] [Some (Failure ''unavailable'')]) = (Some (Failure ''unavailable''), datastore [] [])
   \<and> createTrigger (sample_env (decodes_to (sample_input (- 5) [])))
        1700000000500000000 id_one [] (datastore [] [Some (Failure ''unavailable'')])
      = (Inl (StoreError (Failure ''unavailable'')), datastore [] [])"
  using create_validation
    [of "sample_env (decode_fails ''unexpected end of JSON input'')" "''{''"
        "''unexpected end of JSON input''" 1700000000500000000 id_one "datastore [] []"
        "sample_env (decodes_to (sample_input (- 5) []))" "[]" "sample_input (- 5) []"
        "datastore [] []" "datastore [] []" 1700000000500000000 id_one
        "sample_env (decodes_to (sample_input (- 5) []))" "[]" "sample_input (- 5) []"
        "datastore [] [Some (Failure ''unavailable'')]" "Failure ''unavailable''" "datastore [] []"
        1700000000500000000 id_one]
  by (simp add: sample_defs service_defs Let_def)

section \<open>Not found\<close>

lemma getTrigger_absent:
  "map_of (entities w) uid = None \<Longrightarrow> next_fault w = (None, w') \<Longrightarrow>
     getTrigger uid w = (Inl notFound, w')"
  by (auto simp: getTrigger_def store_Get_def next_fault_def split: list.splits)

lemma checkinTrigger_absent:
  "map_of (entities w) uid = None \<Longrightarrow> next_fault w = (None, w') \<Longrightarrow>
     checkinTrigger now uid w = (Inl notFound, w')"
  by (auto simp: checkinTrigger_def store_Get_def next_fault_def split: list.splits)

lemma deleteTrigger_no_status:
  "fst (deleteTrigger uid w) \<noteq> Inl (StatusCodeError code msg)"
  by (simp add: deleteTrigger_def store_Delete_def split: prod.splits option.splits)

lemma deleteTrigger_absent:
  "next_fault (w\<lparr>delete_calls := delete_calls w @ [uid]\<rparr>) = (None, w') \<Longrightarrow>
     fst (deleteTrigger uid w) = Inr \<lparr>status = 204, headers = [], content = NoBody\<rparr>"
  by (simp add: deleteTrigger_def store_Delete_def)

text \<open>
  C4 fails for \<open>Delete\<close>: \<open>deleteTrigger\<close> returns what \<open>store.Delete\<close> returns, which
  is \<open>nil\<close> for a key that holds no entity, and unlike \<open>getTrigger\<close> and
  \<open>checkinTrigger\<close> it never turns an error into \<open>notFound\<close>. A \<open>DELETE\<close> of a well-formed
  identifier on an empty datastore is answered with 204.
\<close>

theorem delete_absent_no_content:
  "HandleHTTP (sample_env (decode_fails [])) 1700000000500000000 id_two
       \<lparr>Method = ''DELETE'', Path = ''/triggers/6ba7b810-9dad-11d1-80b4-00c04fd430c8'', Body = []\<rparr>
       (datastore [] [])
     = (\<lparr>status = 204, headers = [], content = NoBody\<rparr>,
        (datastore [] [])\<lparr>delete_calls := [id_one]\<rparr>)"
  by (simp add: HandleHTTP_def sample_FromString_def is_hex_def sample_defs service_defs Let_def)

lemma get_absent_not_found:
  "HandleHTTP (sample_env (decode_fails [])) 1700000000500000000 id_two
       \<lparr>Method = ''GET'', Path = ''/triggers/6ba7b810-9dad-11d1-80b4-00c04fd430c8'', Body = []\<rparr>
       (datastore [] [])
     = (\<lparr>status = 404,
         headers = [(''Content-Type'', ''text/plain;charset=UTF-8''), (''Content-Length'', ''36'')],
         content = Text ''The requested URL could not be found''\<rparr>,
        datastore [] [])"
  by (simp add: HandleHTTP_def sample_FromString_def is_hex_def sample_defs service_defs Let_def
        error_response_def Itoa.simps)

section \<open>The sweep\<close>

lemma fireHttpCallback_effect:
  "fireHttpCallback net (FireURL t) (FirePayload t) (w\<lparr>logs := logs w @ [Firing (Id_f t) (FireURL t)]\<rparr>) =
     w\<lparr>posts := posts w @ callback_posts net t, logs := logs w @ callback_lines net t\<rparr>"
  by (simp add: fireHttpCallback_def callback_posts_def callback_lines_def split: http_outcome.splits)

lemma fireHttpCallback_view:
  "store_view (fireHttpCallback net u p w) = store_view w"
  by (simp add: fireHttpCallback_def store_view_def split: http_outcome.splits)

lemma cron_loop_healthy:
  "faults w = [] \<Longrightarrow>
   cron_loop net k target it w =
     (Done, w\<lparr>entities := AList.delete k (entities w),
              delete_calls := delete_calls w @ replicate (Suc (length it)) k,
              posts := posts w @ concat (map (callback_posts net) (target # map snd it)),
              logs := logs w @ concat (map (callback_lines net) (target # map snd it))\<rparr>)"
proof (induction it arbitrary: target w)
  case Nil
  then show ?case
    by (subst cron_loop.simps)
       (simp add: fireHttpCallback_effect store_Delete_def it_Next_def next_fault_def)
next
  case (Cons x xs)
  obtain k' t' where x: "x = (k', t')" by (cases x)
  show ?case
    using Cons.prems
    by (subst cron_loop.simps)
       (simp add: fireHttpCallback_effect store_Delete_def it_Next_def next_fault_def x
          Cons.IH delete_idem replicate_append_same)
qed

lemma ServeCron_healthy:
  assumes "faults w = []"
  shows "ServeCron net now w =
     (None,
      (case store_Run now w of
         [] \<Rightarrow> w
       | (k, target) # it \<Rightarrow>
           w\<lparr>entities := AList.delete k (entities w),
             delete_calls := delete_calls w @ replicate (Suc (length it)) k,
             posts := posts w @ concat (map (callback_posts net) (target # map snd it)),
             logs := logs w @ concat (map (callback_lines net) (target # map snd it))\<rparr>))"
  using assms
  by (simp add: ServeCron_def it_Next_def next_fault_def cron_loop_healthy
        split: list.splits prod.splits)


lemma store_Delete_view:
  assumes "store_view w = store_view w'"
  shows "\<exists>e v v'. store_Delete k w = (e, v) \<and> store_Delete k w' = (e, v') \<and>
           store_view v = store_view v'"
  using assms
  by (auto simp: store_Delete_def next_fault_def store_view_def split: list.splits option.splits)

lemma it_Next_view:
  assumes "store_view w = store_view w'"
  shows "\<exists>r it2 v v'. it_Next it w = (r, it2, v) \<and> it_Next it w' = (r, it2, v') \<and>
           store_view v = store_view v' \<and> (\<forall>x. r = Inr x \<longrightarrow> it = x # it2)"
  using assms
  by (auto simp: it_Next_def next_fault_def store_view_def split: list.splits option.splits)


lemma cron_loop_view:
  "store_view w = store_view w' \<Longrightarrow>
   fst (cron_loop net k target it w) = fst (cron_loop net' k target it w') \<and>
   store_view (snd (cron_loop net k target it w)) = store_view (snd (cron_loop net' k target it w'))"
proof (induction it arbitrary: target w w')
  case Nil
  let ?u = "fireHttpCallback net (FireURL target) (FirePayload target)
              (w\<lparr>logs := logs w @ [Firing (Id_f target) (FireURL target)]\<rparr>)"
  let ?u' = "fireHttpCallback net' (FireURL target) (FirePayload target)
              (w'\<lparr>logs := logs w' @ [Firing (Id_f target) (FireURL target)]\<rparr>)"
  from Nil have "store_view ?u = store_view ?u'"
    by (simp add: fireHttpCallback_view) (simp add: store_view_def)
  from store_Delete_view [OF this, of k] obtain e v v' where
    d: "store_Delete k ?u = (e, v)" "store_Delete k ?u' = (e, v')" "store_view v = store_view v'"
    by blast
  from it_Next_view [OF d(3), of "[]"] obtain r it2 z z' where
    n: "it_Next [] v = (r, it2, z)" "it_Next [] v' = (r, it2, z')" "store_view z = store_view z'"
       "\<forall>x. r = Inr x \<longrightarrow> [] = x # it2"
    by blast
  from n(4) obtain err where r: "r = Inl err" by (cases r) auto
  show ?case
    by (simp add: cron_loop.simps [of net k target "[]" w] cron_loop.simps [of net' k target "[]" w']
          d n r)
next
  case (Cons x xs)
  obtain k' t' where x: "x = (k', t')" by (cases x)
  let ?u = "fireHttpCallback net (FireURL target) (FirePayload target)
              (w\<lparr>logs := logs w @ [Firing (Id_f target) (FireURL target)]\<rparr>)"
  let ?u' = "fireHttpCallback net' (FireURL target) (FirePayload target)
              (w'\<lparr>logs := logs w' @ [Firing (Id_f target) (FireURL target)]\<rparr>)"
  from Cons.prems have "store_view ?u = store_view ?u'"
    by (simp add: fireHttpCallback_view) (simp add: store_view_def)
  from store_Delete_view [OF this, of k] obtain e v v' where
    d: "store_Delete k ?u = (e, v)" "store_Delete k ?u' = (e, v')" "store_view v = store_view v'"
    by blast
  from it_Next_view [OF d(3), of "(k', t') # xs"] obtain r it2 z z' where
    n: "it_Next ((k', t') # xs) v = (r, it2, z)" "it_Next ((k', t') # xs) v' = (r, it2, z')"
       "store_view z = store_view z'" "\<forall>y. r = Inr y \<longrightarrow> (k', t') # xs = y # it2"
    by blast
  show ?case
  proof (cases r)
    case (Inl err)
    then show ?thesis
      by (simp add: x cron_loop.simps [of net k target "(k', t') # xs" w]
            cron_loop.simps [of net' k target "(k', t') # xs" w'] d n(1,2,3))
  next
    case (Inr y)
    with n(4) have it2: "it2 = xs" and y: "y = (k', t')" by simp_all
    from Cons.IH [OF n(3), of t'] show ?thesis
      by (simp add: x cron_loop.simps [of net k target "(k', t') # xs" w]
            cron_loop.simps [of net' k target "(k', t') # xs" w'] d n(1,2,3) Inr it2 y)
  qed
qed

lemma ServeCron_view:
  "fst (ServeCron net now w) = fst (ServeCron net' now w) \<and>
   store_view (snd (ServeCron net now w)) = store_view (snd (ServeCron net' now w))"
proof -
  obtain r it2 v where n: "it_Next (store_Run now w) w = (r, it2, v)"
    by (cases "it_Next (store_Run now w) w") auto
  show ?thesis
  proof (cases r)
    case (Inl err)
    then show ?thesis by (simp add: ServeCron_def n)
  next
    case (Inr y)
    obtain k t where y: "y = (k, t)" by (cases y)
    obtain e1 v1 where c1: "cron_loop net k t it2 v = (e1, v1)"
      by (cases "cron_loop net k t it2 v")
    obtain e2 v2 where c2: "cron_loop net' k t it2 v = (e2, v2)"
      by (cases "cron_loop net' k t it2 v")
    from cron_loop_view [of v v net k t it2 net'] show ?thesis
      by (simp add: ServeCron_def n Inr y c1 c2)
  qed
qed


text \<open>
  C2 fails when more than one trigger is due: the loop takes the key from the first
  \<open>Next\<close> only, so every \<open>store.Delete\<close> of the sweep is for the first due trigger.
  With two due triggers and one that is not, both callbacks are posted, the first
  trigger is deleted twice and the second due trigger stays in the store.
\<close>

theorem sweep_keeps_second_due:
  "ServeCron (always (Response 200)) 1700000000000000000
     (datastore
        [(id_one, sample_trigger id_one 1699996400000000000 ''https://example.org/one''),
         (id_two, sample_trigger id_two 1699996400000000000 ''https://example.org/two''),
         (id_three, sample_trigger id_three 1700003600000000000 ''https://example.org/three'')] [])
   = (None,
      \<lparr>entities =
         [(id_two, sample_trigger id_two 1699996400000000000 ''https://example.org/two''),
          (id_three, sample_trigger id_three 1700003600000000000 ''https://example.org/three'')],
       faults = [],
       delete_calls = [id_one, id_one],
       posts = [(''https://example.org/one'', ''missed''), (''https://example.org/two'', ''missed'')],
       logs = [Firing id_one ''https://example.org/one'', Invoked ''https://example.org/one'' 200,
               Firing id_two ''https://example.org/two'', Invoked ''https://example.org/two'' 200]\<rparr>)"
  by (subst ServeCron_healthy) (simp_all add: sweep_defs)

text \<open>
  The example of the specification, one trigger due an hour ago and one due in an hour,
  goes as described: one callback, and the second trigger remains.
\<close>

lemma sweep_one_due:
  "ServeCron (always (Response 200)) 1700000000000000000
     (datastore
        [(id_one, sample_trigger id_one 1699996400000000000 ''https://example.org/one''),
         (id_two, sample_trigger id_two 1700003600000000000 ''https://example.org/two'')] [])
   = (None,
      \<lparr>entities =
         [(id_two, sample_trigger id_two 1700003600000000000 ''https://example.org/two'')],
       faults = [],
       delete_calls = [id_one],
       posts = [(''https://example.org/one'', ''missed'')],
       logs = [Firing id_one ''https://example.org/one'', Invoked ''https://example.org/one'' 200]\<rparr>)"
  by (subst ServeCron_healthy) (simp_all add: sweep_defs)

text \<open>
  C5 fails: the error that the loop body takes from \<open>store.Delete\<close> is overwritten by
  the post statement \<open>_, err = it.Next(&target)\<close> before anything reads it. With one due
  trigger whose delete fails, the iterator then reports \<open>Done\<close> and the sweep returns
  \<open>nil\<close>, the trigger still in the store.
\<close>

theorem sweep_hides_delete_failure:
  "ServeCron (always (Response 200)) 1700000000000000000
     (datastore
        [(id_one, sample_trigger id_one 1699996400000000000 ''https://example.org/one'')]
        [None, Some (Failure ''context deadline exceeded'')])
   = (None,
      \<lparr>entities = [(id_one, sample_trigger id_one 1699996400000000000 ''https://example.org/one'')],
       faults = [],
       delete_calls = [id_one],
       posts = [(''https://example.org/one'', ''missed'')],
       logs = [Firing id_one ''https://example.org/one'', Invoked ''https://example.org/one'' 200]\<rparr>)"
  by (simp add: ServeCron_def it_Next_def next_fault_def sweep_defs)
     (subst cron_loop.simps,
      simp add: store_Delete_def it_Next_def next_fault_def fireHttpCallback_def Let_def always_def)

text \<open>
  What the callbacks meet has no influence on the sweep: for any two networks it returns
  the same error and leaves the same entities, the same pending datastore outcomes and
  the same sequence of \<open>store.Delete\<close> calls.
\<close>

lemma sweep_ignores_callback_outcome:
  "fst (ServeCron net now w) = fst (ServeCron net' now w) \<and>
   store_view (snd (ServeCron net now w)) = store_view (snd (ServeCron net' now w))"
  by (rule ServeCron_view)

text \<open>
  C6 fails for every due trigger after the first. A failed callback does not abort the
  sweep, and a \<open>store.Delete\<close> follows each launch whatever the callback meets, but that
  call carries the key of the first due trigger (the loop's post statement discards the
  key that \<open>Next\<close> returns). With two due triggers whose callbacks are both refused, the
  sweep returns \<open>nil\<close>, both calls of \<open>store.Delete\<close> are for the first trigger, and the
  second trigger, whose callback failed, is not deleted.
\<close>

theorem sweep_refused_callback_second_kept:
  "fst (ServeCron (always (TransportError ''connection refused'')) 1700000000000000000
     (datastore
        [(id_one, sample_trigger id_one 1699996400000000000 ''https://example.org/one''),
         (id_two, sample_trigger id_two 1699996400000000000 ''https://example.org/two'')] []))
   = None
   \<and> store_view (snd (ServeCron (always (TransportError ''connection refused'')) 1700000000000000000
     (datastore
        [(id_one, sample_trigger id_one 1699996400000000000 ''https://example.org/one''),
         (id_two, sample_trigger id_two 1699996400000000000 ''https://example.org/two'')] [])))
   = ([(id_two, sample_trigger id_two 1699996400000000000 ''https://example.org/two'')],
      [], [id_one, id_one])"
  by (simp add: ServeCron_healthy store_view_def sweep_defs)

section \<open>The routers\<close>

lemma Split_no_sep:
  "sep \<notin> set s \<Longrightarrow> Split s sep = [s]"
  by (induction s) auto

lemma Split_prefix:
  "sep \<notin> set p \<Longrightarrow> Split (p @ sep # s) sep = p # Split s sep"
  by (induction p) auto

text \<open>
  \<open>MethodNotAllowed.Error\<close> of \<open>handler.go\<close> never returns: every call makes the same
  call again.
\<close>

lemma MethodNotAllowed_Error_diverges:
  "MethodNotAllowed_Error m = None"
proof (rule ccontr)
  assume "MethodNotAllowed_Error m \<noteq> None"
  then obtain s where "MethodNotAllowed_Error m = Some s"
    by auto
  then show False
    by (rule MethodNotAllowed_Error.raw_induct [where P = "\<lambda>m s. False", rotated 1])
       (auto simp: bind_eq_Some_conv)
qed

text \<open>
  The router of the service file answers a path whose identifier does not parse with
  \<open>notFound\<close>, whatever the method, and touches nothing.
\<close>

lemma HandleHTTP_malformed_id:
  assumes "Split (Path rq) CHR ''/'' = [p0, ''triggers'', s] \<or>
           Split (Path rq) CHR ''/'' = [p0, ''triggers'', s, t]"
    and "FromString ev s = None"
  shows "HandleHTTP ev now newid rq w = (error_response notFound, w)"
  using assms by (auto simp: HandleHTTP_def)

text \<open>
  The router of the service file answers 405 with the list of methods on the collection
  path, on the path of a well-formed identifier and on its \<open>checkin\<close> path.
\<close>

lemma HandleHTTP_method_not_allowed:
  "(Split (Path rq) CHR ''/'' = [p0, ''triggers''] \<and> Method rq \<noteq> ''POST'' \<longrightarrow>
      HandleHTTP ev now newid rq w =
        (error_response (StatusCodeError 405
           ''The requested method is not available. Available methods: POST''), w)) \<and>
   (Split (Path rq) CHR ''/'' = [p0, ''triggers'', s] \<and> FromString ev s = Some uid \<and>
    Method rq \<noteq> ''GET'' \<and> Method rq \<noteq> ''DELETE'' \<longrightarrow>
      HandleHTTP ev now newid rq w =
        (error_response (StatusCodeError 405
           ''The requested method is not available. Available methods: GET, DELETE''), w)) \<and>
   (Split (Path rq) CHR ''/'' = [p0, ''triggers'', s, ''checkin''] \<and> FromString ev s = Some uid \<and>
    Method rq \<noteq> ''POST'' \<longrightarrow>
      HandleHTTP ev now newid rq w =
        (error_response (StatusCodeError 405
           ''The requested method is not available. Available methods: POST''), w))"
  by (simp add: HandleHTTP_def)

text \<open>
  In \<open>handler.go\<close> a request that ends in \<open>MethodNotAllowed\<close> gets no answer: the text of
  the error is asked for before the status is written.
\<close>

lemma handler_method_not_allowed_no_return:
  "handler_HandleHTTP sample_FromString \<lparr>Method = ''GET'', Path = ''triggers'', Body = []\<rparr> = None"
  by (simp add: handler_HandleHTTP_def handler_Error_def MethodNotAllowed_Error_diverges)

text \<open>
  C7 fails in \<open>handler.go\<close>: its two-segment case tests \<open>e2 != nil\<close>, so an identifier
  that does not parse is what reaches \<open>getTrigger\<close> (with the zero UUID); the comment on
  that branch says "else not found - not a valid UUID". The request is answered by the
  lifecycle function, not with 404.
\<close>

theorem handler_dispatches_malformed_id:
  "handler_HandleHTTP sample_FromString
     \<lparr>Method = ''GET'', Path = ''triggers/not-a-uuid'', Body = []\<rparr>
   = Some \<lparr>status = 200, headers = [], content = Text ''GetTrigger''\<rparr>"
  by (simp add: handler_HandleHTTP_def handler_getTrigger_def sample_FromString_def is_hex_def)

text \<open>
  C8 fails in \<open>handler.go\<close>: by the same inverted test a well-formed identifier never
  reaches the switch on the method, and a \<open>PUT\<close> on it is answered 404, not 405.
\<close>

theorem handler_valid_id_other_method:
  "handler_HandleHTTP sample_FromString
     \<lparr>Method = ''PUT'', Path = ''triggers/6ba7b810-9dad-11d1-80b4-00c04fd430c8'', Body = []\<rparr>
   = Some \<lparr>status = 404,
           headers = [(''Content-Type'', ''text/plain;charset=UTF-8''), (''Content-Length'', ''41'')],
           content = Text ''The requested resource could not be found''\<rparr>"
  by (simp add: handler_HandleHTTP_def handler_Error_def sample_FromString_def is_hex_def Itoa.simps)

text \<open>
  C9: in \<open>handler.go\<close>, on a path of the two segments \<open>triggers\<close> and an identifier, a
  \<open>GET\<close> or \<open>DELETE\<close> is dispatched to \<open>getTrigger\<close> or \<open>deleteTrigger\<close> when the
  identifier fails to parse, and a request whose identifier parses is answered with
  \<open>NotFound\<close>, status 404, whatever its method.
\<close>

theorem handler_inverted_id_check:
  "(Split (Path rq1) CHR ''/'' = [''triggers'', s1] \<and> fromString1 s1 = None \<and>
    Method rq1 = ''GET'' \<longrightarrow>
      handler_HandleHTTP fromString1 rq1 =
        Some \<lparr>status = 200, headers = [], content = Text ''GetTrigger''\<rparr>) \<and>
   (Split (Path rq2) CHR ''/'' = [''triggers'', s2] \<and> fromString2 s2 = None \<and>
    Method rq2 = ''DELETE'' \<longrightarrow>
      handler_HandleHTTP fromString2 rq2 =
        Some \<lparr>status = 200, headers = [], content = Text ''DeleteTrigger''\<rparr>) \<and>
   (Split (Path rq3) CHR ''/'' = [''triggers'', s3] \<and> fromString3 s3 = Some uid \<longrightarrow>
      handler_HandleHTTP fromString3 rq3 =
        Some \<lparr>status = 404,
              headers = [(''Content-Type'', ''text/plain;charset=UTF-8''),
                         (''Content-Length'', ''41'')],
              content = Text ''The requested resource could not be found''\<rparr>)"
  by (simp add: handler_HandleHTTP_def handler_Error_def handler_getTrigger_def
        handler_deleteTrigger_def Itoa.simps)

text \<open>
  C9 at the paths \<open>triggers/not-a-uuid\<close> and \<open>triggers/6ba7b810-9dad-11d1-80b4-00c04fd430c8\<close>.
\<close>

theorem handler_inverted_id_check_witness:
  "Split ''triggers/not-a-uuid'' CHR ''/'' = [''triggers'', ''not-a-uuid'']
   \<and> sample_FromString ''not-a-uuid'' = None
   \<and> handler_HandleHTTP sample_FromString
         \<lparr>Method = ''GET'', Path = ''triggers/not-a-uuid'', Body = []\<rparr>
       = Some \<lparr>status = 200, headers = [], content = Text ''GetTrigger''\<rparr>
   \<and> handler_HandleHTTP sample_FromString
         \<lparr>Method = ''DELETE'', Path = ''triggers/not-a-uuid'', Body = []\<rparr>
       = Some \<lparr>status = 200, headers = [], content = Text ''DeleteTrigger''\<rparr>
   \<and> Split ''triggers/6ba7b810-9dad-11d1-80b4-00c04fd430c8'' CHR ''/''
       = [''triggers'', ''6ba7b810-9dad-11d1-80b4-00c04fd430c8'']
   \<and> sample_FromString ''6ba7b810-9dad-11d1-80b4-00c04fd430c8''
       = Some ''6ba7b810-9dad-11d1-80b4-00c04fd430c8''
   \<and> handler_HandleHTTP sample_FromString
         \<lparr>Method = ''GET'', Path = ''triggers/6ba7b810-9dad-11d1-80b4-00c04fd430c8'', Body = []\<rparr>
       = Some \<lparr>status = 404,
              headers = [(''Content-Type'', ''text/plain;charset=UTF-8''),
                         (''Content-Length'', ''41'')],
              content = Text ''The requested resource could not be found''\<rparr>"
  using handler_inverted_id_check
    [of "\<lparr>Method = ''GET'', Path = ''triggers/not-a-uuid'', Body = []\<rparr>" "''not-a-uuid''"
        sample_FromString
        "\<lparr>Method = ''DELETE'', Path = ''triggers/not-a-uuid'', Body = []\<rparr>" "''not-a-uuid''"
        sample_FromString
        "\<lparr>Method = ''GET'', Path = ''triggers/6ba7b810-9dad-11d1-80b4-00c04fd430c8'', Body = []\<rparr>"
        "''6ba7b810-9dad-11d1-80b4-00c04fd430c8''" sample_FromString
        "''6ba7b810-9dad-11d1-80b4-00c04fd430c8''"]
  by (simp add: sample_FromString_def is_hex_def)

text \<open>
  The service file's router on \<open>/triggers/not-a-uuid\<close>.
\<close>

lemma HandleHTTP_malformed_example:
  "HandleHTTP (sample_env (decode_fails [])) 1700000000500000000 id_two
       \<lparr>Method = ''GET'', Path = ''/triggers/not-a-uuid'', Body = []\<rparr> (datastore [] [])
     = (\<lparr>status = 404,
         headers = [(''Content-Type'', ''text/plain;charset=UTF-8''), (''Content-Length'', ''36'')],
         content = Text ''The requested URL could not be found''\<rparr>,
        datastore [] [])"
  by (simp add: HandleHTTP_def sample_env_def sample_FromString_def is_hex_def notFound_def
        error_response_def Itoa.simps)

end
